theory Spec2Isabelle
  imports Main "HOL-Library.Sublist"
begin

section \<open>IFC merger with colour priority: the data model\<close>

text \<open>
  The script \<^verbatim>\<open>mergeifc.py\<close> sees an IFC entity through a handful of accessors of
  the model library: \<^verbatim>\<open>entity.is_a()\<close> (the type tag), \<^verbatim>\<open>entity.id()\<close> (the
  step identifier, unique within one file only), the optional \<^verbatim>\<open>Name\<close> and
  \<^verbatim>\<open>GlobalId\<close> attributes and, for colours, \<^verbatim>\<open>Red\<close>, \<^verbatim>\<open>Green\<close>, \<^verbatim>\<open>Blue\<close>.
  The colour components are floats that the script only prints; their carrier is the
  type parameter \<open>'f\<close>.

  \<open>Name = None\<close> stands for an attribute that is absent or \<^verbatim>\<open>None\<close>;
  \<open>GlobalId = None\<close> stands for \<^verbatim>\<open>hasattr(entity, 'GlobalId')\<close> being false.
\<close>

record 'f entity =
  is_a :: string
  id_of :: nat
  Name :: "string option"
  GlobalId :: "string option"
  Red :: 'f
  Green :: 'f
  Blue :: 'f

text \<open>
  A path of the file system holds nothing, something the library cannot open, or an
  IFC model: its schema name and its entities in the model's iteration order.
\<close>

datatype 'f ifc_file = Unparsable | Ifc string "'f entity list"

type_synonym 'f filesystem = "string \<Rightarrow> 'f ifc_file option"

text \<open>
  The merged model is represented by the entities the script has added to it, in the
  order of the successful \<^verbatim>\<open>merged_model.add\<close> calls, each with the path of the file
  it was read from. What the library transplants along with an entity (its references,
  renumbered) is the library's business and is not tracked.
\<close>

type_synonym 'f merged = "(string \<times> 'f entity) list"

text \<open>
  The external library, as far as its behaviour is not determined by the script:
  whether \<^verbatim>\<open>merged_model.add(entity)\<close> returns or raises (it may depend on what was
  added before), and whether \<^verbatim>\<open>merged_model.write(path)\<close> returns or raises.
\<close>

record 'f library =
  add_ok :: "'f merged \<Rightarrow> string \<times> 'f entity \<Rightarrow> bool"
  write_ok :: "string \<Rightarrow> bool"

text \<open>
  Every \<^verbatim>\<open>print\<close> of the script is one constructor; the wording (Russian in the
  source) and the rendering of numbers are left out, the printed data are kept.
\<close>

datatype 'f message =
    ErrNoInputFiles
  | ErrBaseNotFound string
  | InfoSchema string string
  | InfoBaseFile string nat
  | WarnBaseAddFailed "'f entity"
  | ErrBaseCritical string
  | WarnFileNotFound string
  | InfoExtraFile string nat
  | WarnAddFailedName string nat string
  | WarnAddFailedGlobalId string string
  | ErrFileProcessing string
  | InfoMerged string nat nat nat nat
  | ErrWrite string
  | AnalysisHeader string
  | MaterialsCount nat
  | SurfaceStylesCount nat
  | StyledItemsCount nat
  | ColoursCount nat
  | MaterialRelationsCount nat
  | SampleName string
  | SampleColour 'f 'f 'f
  | ErrAnalysis
  | Usage
  | Banner
  | SourceAnalysisTitle
  | ResultAnalysisTitle

record 'f world =
  files :: "'f filesystem"
  stdout :: "'f message list"

datatype status = Returned | Exited nat

text \<open>
  The local variables of \<^verbatim>\<open>merge_ifc_files_with_color_priority\<close> that live across
  the loop over the secondary files, and what has been printed so far.
\<close>

record 'f merge_state =
  merged_schema :: string
  merged_model :: "'f merged"
  known_materials :: "string set"
  known_surface_styles :: "string set"
  known_styled_items :: "nat set"
  known_colours :: "nat set"
  known_presentation_styles :: "nat set"
  printed :: "'f message list"

section \<open>Library and language primitives\<close>

text \<open>
  Modelled from the spec: \<^verbatim>\<open>Model.by_type(typeName)\<close> "returns all entities of a
  given tag, in the model's internal order"; the library itself is not part of the
  repository.
\<close>

definition by_type :: "'f entity list \<Rightarrow> string \<Rightarrow> 'f entity list" where
  "by_type model t = filter (\<lambda>e. is_a e = t) model"

text \<open>
  \<^verbatim>\<open>merged_model.add(entity)\<close>: \<open>None\<close> when the call raises, otherwise the model
  with the entity appended.
\<close>

definition add :: "'f library \<Rightarrow> string \<Rightarrow> 'f entity \<Rightarrow> 'f merged \<Rightarrow> 'f merged option" where
  "add lib path e mm = (if add_ok lib mm (path, e) then Some (mm @ [(path, e)]) else None)"

text \<open>
  \<^verbatim>\<open>str.lower()\<close>, on byte strings: the ASCII capitals are mapped to their small
  letters, every other byte is kept.
\<close>

definition lower_char :: "char \<Rightarrow> char" where
  "lower_char c =
     (let n = (of_char c :: nat) in if 65 \<le> n \<and> n \<le> 90 then char_of (n + 32) else c)"

definition lower :: "string \<Rightarrow> string" where
  "lower s = map lower_char s"

text \<open>The decimal numeral of a natural number, as an f-string renders \<^verbatim>\<open>{entity.id()}\<close>.\<close>

fun str_of_nat :: "nat \<Rightarrow> string" where
  "str_of_nat n =
     (if n < 10 then [char_of (48 + n)]
      else str_of_nat (n div 10) @ [char_of (48 + n mod 10)])"

text \<open>Python's truth value of \<^verbatim>\<open>entity.Name\<close>: false for \<^verbatim>\<open>None\<close> and for the empty string.\<close>

definition has_name :: "'f entity \<Rightarrow> bool" where
  "has_name e = (case Name e of None \<Rightarrow> False | Some s \<Rightarrow> s \<noteq> [])"

definition name_str :: "'f entity \<Rightarrow> string" where
  "name_str e = (case Name e of None \<Rightarrow> [] | Some s \<Rightarrow> s)"

text \<open>
  Lines 133 and 143:
  \<^verbatim>\<open>x.Name.lower() if x.Name else f"unnamed_{x.id()}"\<close>.
\<close>

definition name_key :: "'f entity \<Rightarrow> string" where
  "name_key e = (if has_name e then lower (name_str e) else ''unnamed_'' @ str_of_nat (id_of e))"

section \<open>The merge\<close>

subsection \<open>The base file (lines 75 to 94)\<close>

text \<open>
  Lines 83 to 87: every entity of the base file is added; a failing add prints a
  warning and the loop goes on.
\<close>

fun import_base :: "'f library \<Rightarrow> string \<Rightarrow> 'f entity list \<Rightarrow> 'f merge_state \<Rightarrow> 'f merge_state" where
  "import_base lib path [] st = st"
| "import_base lib path (e # es) st =
     import_base lib path es
       (case add lib path e (merged_model st) of
          Some mm \<Rightarrow> st\<lparr>merged_model := mm\<rparr>
        | None \<Rightarrow> st\<lparr>printed := printed st @ [WarnBaseAddFailed e]\<rparr>)"

text \<open>
  Lines 76 to 94. The known sets are read from the base model, not from the merged
  one; the name sets hold the names that are truthy only.
\<close>

definition load_base ::
  "'f library \<Rightarrow> string \<Rightarrow> string \<Rightarrow> 'f entity list \<Rightarrow> 'f message list \<Rightarrow> 'f merge_state" where
  "load_base lib base_model_path schema base_model out =
     (import_base lib base_model_path base_model
        \<lparr>merged_schema = schema,
         merged_model = [],
         known_materials = {},
         known_surface_styles = {},
         known_styled_items = {},
         known_colours = {},
         known_presentation_styles = {},
         printed = out @ [InfoSchema schema base_model_path,
                          InfoBaseFile base_model_path (length (by_type base_model ''IfcProduct''))]\<rparr>)
     \<lparr>known_materials :=
        set [lower (name_str m). m \<leftarrow> by_type base_model ''IfcMaterial'', has_name m],
      known_surface_styles :=
        set [lower (name_str s). s \<leftarrow> by_type base_model ''IfcSurfaceStyle'', has_name s],
      known_styled_items := id_of ` set (by_type base_model ''IfcStyledItem''),
      known_colours := id_of ` set (by_type base_model ''IfcColourRgb''),
      known_presentation_styles :=
        id_of ` set (by_type base_model ''IfcPresentationStyleAssignment'')\<rparr>"

subsection \<open>The secondary files (lines 102 to 192)\<close>

text \<open>
  The five loops of lines 114 to 158 have one shape: an entity whose key is not in
  the known set is added, and the key joins the set when the add returned; a raising
  add is swallowed by the bare \<^verbatim>\<open>except: pass\<close>.
\<close>

fun copy_new ::
  "'f library \<Rightarrow> string \<Rightarrow> ('f entity \<Rightarrow> 'k) \<Rightarrow> 'f entity list \<Rightarrow> 'f merged \<times> 'k set
     \<Rightarrow> 'f merged \<times> 'k set" where
  "copy_new lib path key [] (mm, known) = (mm, known)"
| "copy_new lib path key (e # es) (mm, known) =
     copy_new lib path key es
       (if key e \<notin> known then
          (case add lib path e mm of
             Some mm' \<Rightarrow> (mm', insert (key e) known)
           | None \<Rightarrow> (mm, known))
        else (mm, known))"

text \<open>The two loops of lines 161 to 172 add every entity and swallow a raising add.\<close>

fun copy_all :: "'f library \<Rightarrow> string \<Rightarrow> 'f entity list \<Rightarrow> 'f merged \<Rightarrow> 'f merged" where
  "copy_all lib path [] mm = mm"
| "copy_all lib path (e # es) mm =
     copy_all lib path es (case add lib path e mm of Some mm' \<Rightarrow> mm' | None \<Rightarrow> mm)"

definition pass_colours :: "'f library \<Rightarrow> string \<Rightarrow> 'f entity list \<Rightarrow> 'f merge_state \<Rightarrow> 'f merge_state" where
  "pass_colours lib path current_model st =
     (case copy_new lib path id_of (by_type current_model ''IfcColourRgb'')
             (merged_model st, known_colours st) of
        (mm, known) \<Rightarrow> st\<lparr>merged_model := mm, known_colours := known\<rparr>)"

definition pass_presentation_styles ::
  "'f library \<Rightarrow> string \<Rightarrow> 'f entity list \<Rightarrow> 'f merge_state \<Rightarrow> 'f merge_state" where
  "pass_presentation_styles lib path current_model st =
     (case copy_new lib path id_of (by_type current_model ''IfcPresentationStyleAssignment'')
             (merged_model st, known_presentation_styles st) of
        (mm, known) \<Rightarrow> st\<lparr>merged_model := mm, known_presentation_styles := known\<rparr>)"

definition pass_surface_styles ::
  "'f library \<Rightarrow> string \<Rightarrow> 'f entity list \<Rightarrow> 'f merge_state \<Rightarrow> 'f merge_state" where
  "pass_surface_styles lib path current_model st =
     (case copy_new lib path name_key (by_type current_model ''IfcSurfaceStyle'')
             (merged_model st, known_surface_styles st) of
        (mm, known) \<Rightarrow> st\<lparr>merged_model := mm, known_surface_styles := known\<rparr>)"

definition pass_materials :: "'f library \<Rightarrow> string \<Rightarrow> 'f entity list \<Rightarrow> 'f merge_state \<Rightarrow> 'f merge_state" where
  "pass_materials lib path current_model st =
     (case copy_new lib path name_key (by_type current_model ''IfcMaterial'')
             (merged_model st, known_materials st) of
        (mm, known) \<Rightarrow> st\<lparr>merged_model := mm, known_materials := known\<rparr>)"

definition pass_styled_items ::
  "'f library \<Rightarrow> string \<Rightarrow> 'f entity list \<Rightarrow> 'f merge_state \<Rightarrow> 'f merge_state" where
  "pass_styled_items lib path current_model st =
     (case copy_new lib path id_of (by_type current_model ''IfcStyledItem'')
             (merged_model st, known_styled_items st) of
        (mm, known) \<Rightarrow> st\<lparr>merged_model := mm, known_styled_items := known\<rparr>)"

definition pass_material_relations ::
  "'f library \<Rightarrow> string \<Rightarrow> 'f entity list \<Rightarrow> 'f merge_state \<Rightarrow> 'f merge_state" where
  "pass_material_relations lib path current_model st =
     st\<lparr>merged_model :=
          copy_all lib path (by_type current_model ''IfcRelAssociatesMaterial'') (merged_model st)\<rparr>"

definition pass_layers :: "'f library \<Rightarrow> string \<Rightarrow> 'f entity list \<Rightarrow> 'f merge_state \<Rightarrow> 'f merge_state" where
  "pass_layers lib path current_model st =
     st\<lparr>merged_model :=
          copy_all lib path (by_type current_model ''IfcPresentationLayerAssignment'')
            (merged_model st)\<rparr>"

text \<open>The type tags that the last loop skips (lines 177 to 179).\<close>

definition handled_types :: "string list" where
  "handled_types =
     [''IfcColourRgb'', ''IfcPresentationStyleAssignment'', ''IfcSurfaceStyle'', ''IfcMaterial'',
      ''IfcStyledItem'', ''IfcRelAssociatesMaterial'', ''IfcPresentationLayerAssignment'']"

text \<open>
  Lines 175 to 189: every other entity is added; a failing add prints a warning when
  the entity has a truthy name, else when it has a \<^verbatim>\<open>GlobalId\<close> attribute, else
  nothing.
\<close>

fun sweep :: "'f library \<Rightarrow> string \<Rightarrow> 'f entity list \<Rightarrow> 'f merge_state \<Rightarrow> 'f merge_state" where
  "sweep lib path [] st = st"
| "sweep lib path (e # es) st =
     sweep lib path es
       (if is_a e \<in> set handled_types then st
        else
          (case add lib path e (merged_model st) of
             Some mm \<Rightarrow> st\<lparr>merged_model := mm\<rparr>
           | None \<Rightarrow>
               (if has_name e then
                  st\<lparr>printed := printed st @ [WarnAddFailedName (name_str e) (id_of e) path]\<rparr>
                else
                  (case GlobalId e of
                     Some g \<Rightarrow> st\<lparr>printed := printed st @ [WarnAddFailedGlobalId g path]\<rparr>
                   | None \<Rightarrow> st))))"

text \<open>Lines 108 to 189, the body of the \<^verbatim>\<open>try\<close> once the file is open.\<close>

definition process_model ::
  "'f library \<Rightarrow> string \<Rightarrow> 'f entity list \<Rightarrow> 'f merge_state \<Rightarrow> 'f merge_state" where
  "process_model lib path current_model st =
     sweep lib path current_model
       (pass_layers lib path current_model
         (pass_material_relations lib path current_model
           (pass_styled_items lib path current_model
             (pass_materials lib path current_model
               (pass_surface_styles lib path current_model
                 (pass_presentation_styles lib path current_model
                   (pass_colours lib path current_model
                     (st\<lparr>printed := printed st @
                          [InfoExtraFile path (length (by_type current_model ''IfcProduct''))]\<rparr>))))))))"

text \<open>
  Lines 103 to 192, one round of the loop: a missing file is skipped with a warning,
  a file that does not open is reported by the handler of line 191, and the loop
  goes on in both cases.
\<close>

definition process_file ::
  "'f library \<Rightarrow> 'f filesystem \<Rightarrow> string \<Rightarrow> 'f merge_state \<Rightarrow> 'f merge_state" where
  "process_file lib fs file_path st =
     (case fs file_path of
        None \<Rightarrow> st\<lparr>printed := printed st @ [WarnFileNotFound file_path]\<rparr>
      | Some Unparsable \<Rightarrow> st\<lparr>printed := printed st @ [ErrFileProcessing file_path]\<rparr>
      | Some (Ifc schema current_model) \<Rightarrow> process_model lib file_path current_model st)"

fun merge_loop ::
  "'f library \<Rightarrow> 'f filesystem \<Rightarrow> string list \<Rightarrow> 'f merge_state \<Rightarrow> 'f merge_state" where
  "merge_loop lib fs [] st = st"
| "merge_loop lib fs (file_path # rest) st = merge_loop lib fs rest (process_file lib fs file_path st)"

subsection \<open>Writing the result (lines 194 to 204)\<close>

definition write_output :: "'f library \<Rightarrow> string \<Rightarrow> 'f merge_state \<Rightarrow> 'f world \<Rightarrow> 'f world" where
  "write_output lib output_file st w =
     (let model = map snd (merged_model st) in
      if write_ok lib output_file then
        \<lparr>files = (files w)(output_file \<mapsto> Ifc (merged_schema st) model),
         stdout = printed st @
           [InfoMerged output_file
              (length (by_type model ''IfcProduct''))
              (length (by_type model ''IfcMaterial''))
              (length (by_type model ''IfcSurfaceStyle''))
              (length (by_type model ''IfcStyledItem''))]\<rparr>
      else \<lparr>files = files w, stdout = printed st @ [ErrWrite output_file]\<rparr>)"

subsection \<open>The merge function (lines 54 to 204)\<close>

text \<open>
  \<^verbatim>\<open>sys.exit(1)\<close> raises \<^verbatim>\<open>SystemExit\<close>, which the handler of line 96
  (\<^verbatim>\<open>except Exception\<close>) does not catch: the missing base file ends the process
  with status 1 after one message; a base file that does not open ends it with
  status 1 from the handler.
\<close>

definition merge_ifc_files_with_color_priority ::
  "'f library \<Rightarrow> string list \<Rightarrow> string \<Rightarrow> 'f world \<Rightarrow> status \<times> 'f world" where
  "merge_ifc_files_with_color_priority lib input_files output_file w =
     (case input_files of
        [] \<Rightarrow> (Returned, w\<lparr>stdout := stdout w @ [ErrNoInputFiles]\<rparr>)
      | base_model_path # others \<Rightarrow>
          (case files w base_model_path of
             None \<Rightarrow> (Exited 1, w\<lparr>stdout := stdout w @ [ErrBaseNotFound base_model_path]\<rparr>)
           | Some Unparsable \<Rightarrow>
               (Exited 1, w\<lparr>stdout := stdout w @ [ErrBaseCritical base_model_path]\<rparr>)
           | Some (Ifc schema base_model) \<Rightarrow>
               (Returned,
                write_output lib output_file
                  (merge_loop lib (files w) others
                     (load_base lib base_model_path schema base_model (stdout w)))
                  w)))"

section \<open>The analyzer (lines 206 to 236)\<close>

definition shown_name :: "'f entity \<Rightarrow> string" where
  "shown_name e = (if has_name e then name_str e else ''Unnamed'')"

fun print_names :: "'f entity list \<Rightarrow> 'f message list \<Rightarrow> 'f message list" where
  "print_names [] out = out"
| "print_names (e # es) out = print_names es (out @ [SampleName (shown_name e)])"

fun print_colours :: "'f entity list \<Rightarrow> 'f message list \<Rightarrow> 'f message list" where
  "print_colours [] out = out"
| "print_colours (c # cs) out = print_colours cs (out @ [SampleColour (Red c) (Green c) (Blue c)])"

text \<open>Lines 214 to 233, once the file is open.\<close>

definition analyse_model :: "'f entity list \<Rightarrow> 'f message list \<Rightarrow> 'f message list" where
  "analyse_model model out0 =
     (let materials = by_type model ''IfcMaterial'';
          out1 = print_names (take 5 materials) (out0 @ [MaterialsCount (length materials)]);
          surface_styles = by_type model ''IfcSurfaceStyle'';
          out2 = print_names (take 5 surface_styles)
                   (out1 @ [SurfaceStylesCount (length surface_styles)]);
          styled_items = by_type model ''IfcStyledItem'';
          out3 = out2 @ [StyledItemsCount (length styled_items)];
          colours = by_type model ''IfcColourRgb'';
          out4 = print_colours (take 3 colours) (out3 @ [ColoursCount (length colours)]);
          material_relations = by_type model ''IfcRelAssociatesMaterial''
      in out4 @ [MaterialRelationsCount (length material_relations)])"

definition validate_ifc_colors :: "string \<Rightarrow> 'f world \<Rightarrow> 'f world" where
  "validate_ifc_colors ifc_file w =
     (let out = stdout w @ [AnalysisHeader ifc_file] in
      case files w ifc_file of
        Some (Ifc schema model) \<Rightarrow> w\<lparr>stdout := analyse_model model out\<rparr>
      | _ \<Rightarrow> w\<lparr>stdout := out @ [ErrAnalysis]\<rparr>)"

section \<open>The command line (lines 238 to 275)\<close>

text \<open>
  The result is the exit status of the process and the world it leaves. A run that
  reaches the end of the script exits with status 0. The tests on \<open>length argv\<close>
  guard every index: \<open>argv ! 1\<close> and \<open>argv ! 2\<close> are read only when
  \<open>3 \<le> length argv\<close>, where \<open>drop 2 argv\<close> is not empty.
\<close>

definition main :: "'f library \<Rightarrow> string list \<Rightarrow> 'f world \<Rightarrow> nat \<times> 'f world" where
  "main lib argv w =
     (if 3 \<le> length argv \<and> argv ! 1 = ''--analyze'' then (0, validate_ifc_colors (argv ! 2) w)
      else if length argv < 3 then (1, w\<lparr>stdout := stdout w @ [Usage]\<rparr>)
      else
        (let output_ifc = argv ! 1;
             input_ifc_files = drop 2 argv;
             w1 = w\<lparr>stdout := stdout w @ [Banner, SourceAnalysisTitle]\<rparr>;
             w2 = validate_ifc_colors (hd input_ifc_files) w1
         in case merge_ifc_files_with_color_priority lib input_ifc_files output_ifc w2 of
              (Exited n, w3) \<Rightarrow> (n, w3)
            | (Returned, w3) \<Rightarrow>
                (0, validate_ifc_colors output_ifc (w3\<lparr>stdout := stdout w3 @ [ResultAnalysisTitle]\<rparr>))))"

section \<open>Notions used to state the properties\<close>

text \<open>
  What a deduplicating loop may do to its known set: \<open>copied\<close> is picked from the
  candidates in their order, no key of a copied entity was in the known set before,
  no two copied entities share a key, and the known set grows by exactly the keys of
  the copied entities.
\<close>

definition selected ::
  "('f entity \<Rightarrow> 'k) \<Rightarrow> 'k set \<Rightarrow> 'f entity list \<Rightarrow> 'f entity list \<Rightarrow> 'k set \<Rightarrow> bool" where
  "selected key known candidates copied known' \<longleftrightarrow>
     subseq copied candidates \<and> key ` set copied \<inter> known = {} \<and> distinct (map key copied) \<and>
     known' = known \<union> key ` set copied"



text \<open>The five known sets of a state, in the order of their declaration (lines 90 to 94).\<close>

definition known_sets ::
  "'f merge_state \<Rightarrow> string set \<times> string set \<times> nat set \<times> nat set \<times> nat set" where
  "known_sets st =
     (known_materials st, known_surface_styles st, known_styled_items st, known_colours st,
      known_presentation_styles st)"


text \<open>Two states that differ in what has been printed at most.\<close>

definition same_core :: "'f merge_state \<Rightarrow> 'f merge_state \<Rightarrow> bool" where
  "same_core st st' \<longleftrightarrow>
     merged_schema st = merged_schema st' \<and> merged_model st = merged_model st' \<and>
     known_sets st = known_sets st'"

text \<open>A path that exists and that the library opens.\<close>

definition openable :: "'f filesystem \<Rightarrow> string \<Rightarrow> bool" where
  "openable fs path = (case fs path of Some (Ifc schema model) \<Rightarrow> True | _ \<Rightarrow> False)"

section \<open>Concrete inputs\<close>

definition mk_entity :: "string \<Rightarrow> nat \<Rightarrow> string option \<Rightarrow> int entity" where
  "mk_entity t i n =
     \<lparr>is_a = t, id_of = i, Name = n, GlobalId = None, Red = 0, Green = 0, Blue = 0\<rparr>"

text \<open>A library whose calls all return.\<close>

definition lib_ok :: "int library" where
  "lib_ok = \<lparr>add_ok = (\<lambda>mm x. True), write_ok = (\<lambda>path. True)\<rparr>"

definition model_a :: "int entity list" where
  "model_a =
     [mk_entity ''IfcMaterial'' 1 (Some ''Concrete''),
      mk_entity ''IfcColourRgb'' 2 None,
      mk_entity ''IfcWall'' 3 (Some ''wall A'')]"

definition model_b :: "int entity list" where
  "model_b =
     [mk_entity ''IfcMaterial'' 1 (Some ''CONCRETE''),
      mk_entity ''IfcMaterial'' 5 None,
      mk_entity ''IfcColourRgb'' 9 None,
      mk_entity ''IfcRelAssociatesMaterial'' 6 None,
      mk_entity ''IfcWall'' 7 (Some ''wall B'')]"

definition model_c :: "int entity list" where
  "model_c =
     [mk_entity ''IfcMaterial'' 5 None,
      mk_entity ''IfcStyledItem'' 8 (Some ''item C'')]"

definition model_d :: "int entity list" where
  "model_d = [mk_entity ''IfcStyledItem'' 8 (Some ''item D'')]"

text \<open>
  Four IFC files, a file that does not parse, and no other path (in particular no
  \<^verbatim>\<open>missing.ifc\<close> and no \<^verbatim>\<open>out.ifc\<close>).
\<close>

definition example_files :: "int filesystem" where
  "example_files =
     [''a.ifc'' \<mapsto> Ifc ''IFC4'' model_a,
      ''b.ifc'' \<mapsto> Ifc ''IFC4'' model_b,
      ''c.ifc'' \<mapsto> Ifc ''IFC4'' model_c,
      ''d.ifc'' \<mapsto> Ifc ''IFC4'' model_d,
      ''bad.ifc'' \<mapsto> Unparsable]"

definition example_world :: "int world" where
  "example_world = \<lparr>files = example_files, stdout = []\<rparr>"

text \<open>The state after the base file \<^verbatim>\<open>a.ifc\<close> has been loaded.\<close>

definition state_a :: "int merge_state" where
  "state_a = load_base lib_ok ''a.ifc'' ''IFC4'' model_a []"

section \<open>The loops, one at a time\<close>

text \<open>
  A deduplicating loop appends to the merged model a selection of its candidates and
  extends the known set by the keys of that selection.
\<close>

lemma subseq_subset: "subseq xs ys \<Longrightarrow> set xs \<subseteq> set ys"
  by (auto elim: list_emb_set)

lemma copy_new_selected:
  "\<exists>c. copy_new lib p key es (mm, K) = (mm @ map (Pair p) c, K \<union> key ` set c) \<and>
       selected key K es c (K \<union> key ` set c)"
proof (induction es arbitrary: mm K)
  case Nil
  show ?case by (simp add: selected_def)
next
  case (Cons e es)
  show ?case
  proof (cases "key e \<notin> K \<and> add_ok lib mm (p, e)")
    case True
    from Cons.IH[of "mm @ [(p, e)]" "insert (key e) K"] obtain c where
      c: "copy_new lib p key es (mm @ [(p, e)], insert (key e) K) =
            ((mm @ [(p, e)]) @ map (Pair p) c, insert (key e) K \<union> key ` set c)"
      and s: "selected key (insert (key e) K) es c (insert (key e) K \<union> key ` set c)"
      by blast
    have "copy_new lib p key (e # es) (mm, K) = (mm @ map (Pair p) (e # c), K \<union> key ` set (e # c))"
      using True c by (simp add: add_def)
    moreover have "selected key K (e # es) (e # c) (K \<union> key ` set (e # c))"
      using True s by (auto simp: selected_def)
    ultimately show ?thesis by blast
  next
    case False
    from Cons.IH[of mm K] obtain c where
      c: "copy_new lib p key es (mm, K) = (mm @ map (Pair p) c, K \<union> key ` set c)"
      and s: "selected key K es c (K \<union> key ` set c)"
      by blast
    have "copy_new lib p key (e # es) (mm, K) = (mm @ map (Pair p) c, K \<union> key ` set c)"
      using False c by (auto simp: add_def)
    moreover have "selected key K (e # es) c (K \<union> key ` set c)"
      using s by (auto simp: selected_def)
    ultimately show ?thesis by blast
  qed
qed

text \<open>
  An unconditional loop appends a subsequence of its candidates: all of them when no add
  of the file raises.
\<close>

lemma copy_all_subseq:
  "\<exists>c. copy_all lib p es mm = mm @ map (Pair p) c \<and> subseq c es \<and>
       ((\<forall>m e. add_ok lib m (p, e)) \<longrightarrow> c = es)"
proof (induction es arbitrary: mm)
  case Nil
  show ?case by simp
next
  case (Cons e es)
  show ?case
  proof (cases "add_ok lib mm (p, e)")
    case True
    from Cons.IH[of "mm @ [(p, e)]"] obtain c where
      "copy_all lib p es (mm @ [(p, e)]) = (mm @ [(p, e)]) @ map (Pair p) c" "subseq c es"
      "(\<forall>m e. add_ok lib m (p, e)) \<longrightarrow> c = es"
      by blast
    with True have "copy_all lib p (e # es) mm = mm @ map (Pair p) (e # c) \<and> subseq (e # c) (e # es)
       \<and> ((\<forall>m e. add_ok lib m (p, e)) \<longrightarrow> e # c = e # es)"
      by (simp add: add_def)
    then show ?thesis by blast
  next
    case False
    from Cons.IH[of mm] obtain c where
      "copy_all lib p es mm = mm @ map (Pair p) c" "subseq c es"
      by blast
    with False have "copy_all lib p (e # es) mm = mm @ map (Pair p) c \<and> subseq c (e # es)
       \<and> ((\<forall>m e. add_ok lib m (p, e)) \<longrightarrow> c = e # es)"
      by (auto simp: add_def)
    then show ?thesis by blast
  qed
qed

text \<open>
  The last loop appends entities whose tag is none of the seven handled ones, and leaves
  the known sets and the schema alone.
\<close>

lemma sweep_known [simp]:
  "known_sets (sweep lib p es st) = known_sets st"
  "merged_schema (sweep lib p es st) = merged_schema st"
  by (induction es arbitrary: st) (auto simp: known_sets_def split: option.splits)

lemma sweep_fields [simp]:
  "known_materials (sweep lib p es st) = known_materials st"
  "known_surface_styles (sweep lib p es st) = known_surface_styles st"
  "known_styled_items (sweep lib p es st) = known_styled_items st"
  "known_colours (sweep lib p es st) = known_colours st"
  "known_presentation_styles (sweep lib p es st) = known_presentation_styles st"
  using sweep_known(1)[of lib p es st] by (simp_all add: known_sets_def)

lemma sweep_subseq:
  "\<exists>c. merged_model (sweep lib p es st) = merged_model st @ map (Pair p) c \<and>
       subseq c (filter (\<lambda>e. is_a e \<notin> set handled_types) es)"
proof (induction es arbitrary: st)
  case Nil
  show ?case by simp
next
  case (Cons e es)
  let ?st1 = "(if is_a e \<in> set handled_types then st
        else
          (case add lib p e (merged_model st) of
             Some mm \<Rightarrow> st\<lparr>merged_model := mm\<rparr>
           | None \<Rightarrow>
               (if has_name e then
                  st\<lparr>printed := printed st @ [WarnAddFailedName (name_str e) (id_of e) p]\<rparr>
                else
                  (case GlobalId e of
                     Some g \<Rightarrow> st\<lparr>printed := printed st @ [WarnAddFailedGlobalId g p]\<rparr>
                   | None \<Rightarrow> st))))"
  from Cons.IH[of ?st1] obtain c where
    c: "merged_model (sweep lib p es ?st1) = merged_model ?st1 @ map (Pair p) c"
       "subseq c (filter (\<lambda>e. is_a e \<notin> set handled_types) es)"
    by blast
  show ?case
  proof (cases "is_a e \<notin> set handled_types \<and> add_ok lib (merged_model st) (p, e)")
    case True
    then have "merged_model ?st1 = merged_model st @ [(p, e)]" by (simp add: add_def)
    with c True have "merged_model (sweep lib p (e # es) st) = merged_model st @ map (Pair p) (e # c) \<and>
       subseq (e # c) (filter (\<lambda>e. is_a e \<notin> set handled_types) (e # es))"
      by simp
    then show ?thesis by blast
  next
    case False
    then have "merged_model ?st1 = merged_model st" by (auto simp: add_def split: option.splits)
    with c have "merged_model (sweep lib p (e # es) st) = merged_model st @ map (Pair p) c \<and>
       subseq c (filter (\<lambda>e. is_a e \<notin> set handled_types) (e # es))"
      by auto
    then show ?thesis by blast
  qed
qed

subsection \<open>The five deduplicating passes\<close>

lemma pass_colours_shape:
  "\<exists>c. pass_colours lib p m st =
         st\<lparr>merged_model := merged_model st @ map (Pair p) c,
            known_colours := known_colours st \<union> id_of ` set c\<rparr> \<and>
       selected id_of (known_colours st) (by_type m ''IfcColourRgb'') c
         (known_colours st \<union> id_of ` set c)"
  using copy_new_selected[of lib p id_of "by_type m ''IfcColourRgb''" "merged_model st" "known_colours st"]
  by (auto simp: pass_colours_def)

lemma pass_presentation_styles_shape:
  "\<exists>c. pass_presentation_styles lib p m st =
         st\<lparr>merged_model := merged_model st @ map (Pair p) c,
            known_presentation_styles := known_presentation_styles st \<union> id_of ` set c\<rparr> \<and>
       selected id_of (known_presentation_styles st) (by_type m ''IfcPresentationStyleAssignment'') c
         (known_presentation_styles st \<union> id_of ` set c)"
  using copy_new_selected[of lib p id_of "by_type m ''IfcPresentationStyleAssignment''"
      "merged_model st" "known_presentation_styles st"]
  by (auto simp: pass_presentation_styles_def)

lemma pass_surface_styles_shape:
  "\<exists>c. pass_surface_styles lib p m st =
         st\<lparr>merged_model := merged_model st @ map (Pair p) c,
            known_surface_styles := known_surface_styles st \<union> name_key ` set c\<rparr> \<and>
       selected name_key (known_surface_styles st) (by_type m ''IfcSurfaceStyle'') c
         (known_surface_styles st \<union> name_key ` set c)"
  using copy_new_selected[of lib p name_key "by_type m ''IfcSurfaceStyle''"
      "merged_model st" "known_surface_styles st"]
  by (auto simp: pass_surface_styles_def)

lemma pass_materials_shape:
  "\<exists>c. pass_materials lib p m st =
         st\<lparr>merged_model := merged_model st @ map (Pair p) c,
            known_materials := known_materials st \<union> name_key ` set c\<rparr> \<and>
       selected name_key (known_materials st) (by_type m ''IfcMaterial'') c
         (known_materials st \<union> name_key ` set c)"
  using copy_new_selected[of lib p name_key "by_type m ''IfcMaterial''"
      "merged_model st" "known_materials st"]
  by (auto simp: pass_materials_def)

lemma pass_styled_items_shape:
  "\<exists>c. pass_styled_items lib p m st =
         st\<lparr>merged_model := merged_model st @ map (Pair p) c,
            known_styled_items := known_styled_items st \<union> id_of ` set c\<rparr> \<and>
       selected id_of (known_styled_items st) (by_type m ''IfcStyledItem'') c
         (known_styled_items st \<union> id_of ` set c)"
  using copy_new_selected[of lib p id_of "by_type m ''IfcStyledItem''"
      "merged_model st" "known_styled_items st"]
  by (auto simp: pass_styled_items_def)

subsection \<open>One secondary file\<close>

text \<open>
  The merged model after one file is the merged model before it, followed by what the
  seven passes and the last loop have added, in this order.
\<close>

lemma process_model_shape:
  "\<exists>c1 c2 c3 c4 c5 c6 c7 c8.
     merged_model (process_model lib p m st) =
       merged_model st @ map (Pair p) (c1 @ c2 @ c3 @ c4 @ c5 @ c6 @ c7 @ c8) \<and>
     selected id_of (known_colours st) (by_type m ''IfcColourRgb'') c1
       (known_colours (process_model lib p m st)) \<and>
     selected id_of (known_presentation_styles st) (by_type m ''IfcPresentationStyleAssignment'') c2
       (known_presentation_styles (process_model lib p m st)) \<and>
     selected name_key (known_surface_styles st) (by_type m ''IfcSurfaceStyle'') c3
       (known_surface_styles (process_model lib p m st)) \<and>
     selected name_key (known_materials st) (by_type m ''IfcMaterial'') c4
       (known_materials (process_model lib p m st)) \<and>
     selected id_of (known_styled_items st) (by_type m ''IfcStyledItem'') c5
       (known_styled_items (process_model lib p m st)) \<and>
     subseq c6 (by_type m ''IfcRelAssociatesMaterial'') \<and>
     subseq c7 (by_type m ''IfcPresentationLayerAssignment'') \<and>
     subseq c8 (filter (\<lambda>e. is_a e \<notin> set handled_types) m) \<and>
     ((\<forall>mm e. add_ok lib mm (p, e)) \<longrightarrow>
        c6 = by_type m ''IfcRelAssociatesMaterial'' \<and>
        c7 = by_type m ''IfcPresentationLayerAssignment'')"
proof -
  define st0 where
    "st0 = st\<lparr>printed := printed st @ [InfoExtraFile p (length (by_type m ''IfcProduct''))]\<rparr>"
  obtain c1 where c1: "pass_colours lib p m st0 =
         st0\<lparr>merged_model := merged_model st0 @ map (Pair p) c1,
            known_colours := known_colours st0 \<union> id_of ` set c1\<rparr>"
     and s1: "selected id_of (known_colours st0) (by_type m ''IfcColourRgb'') c1
         (known_colours st0 \<union> id_of ` set c1)"
    using pass_colours_shape by blast
  define st1 where "st1 = pass_colours lib p m st0"
  obtain c2 where c2: "pass_presentation_styles lib p m st1 =
         st1\<lparr>merged_model := merged_model st1 @ map (Pair p) c2,
            known_presentation_styles := known_presentation_styles st1 \<union> id_of ` set c2\<rparr>"
     and s2: "selected id_of (known_presentation_styles st1)
         (by_type m ''IfcPresentationStyleAssignment'') c2
         (known_presentation_styles st1 \<union> id_of ` set c2)"
    using pass_presentation_styles_shape by blast
  define st2 where "st2 = pass_presentation_styles lib p m st1"
  obtain c3 where c3: "pass_surface_styles lib p m st2 =
         st2\<lparr>merged_model := merged_model st2 @ map (Pair p) c3,
            known_surface_styles := known_surface_styles st2 \<union> name_key ` set c3\<rparr>"
     and s3: "selected name_key (known_surface_styles st2) (by_type m ''IfcSurfaceStyle'') c3
         (known_surface_styles st2 \<union> name_key ` set c3)"
    using pass_surface_styles_shape by blast
  define st3 where "st3 = pass_surface_styles lib p m st2"
  obtain c4 where c4: "pass_materials lib p m st3 =
         st3\<lparr>merged_model := merged_model st3 @ map (Pair p) c4,
            known_materials := known_materials st3 \<union> name_key ` set c4\<rparr>"
     and s4: "selected name_key (known_materials st3) (by_type m ''IfcMaterial'') c4
         (known_materials st3 \<union> name_key ` set c4)"
    using pass_materials_shape by blast
  define st4 where "st4 = pass_materials lib p m st3"
  obtain c5 where c5: "pass_styled_items lib p m st4 =
         st4\<lparr>merged_model := merged_model st4 @ map (Pair p) c5,
            known_styled_items := known_styled_items st4 \<union> id_of ` set c5\<rparr>"
     and s5: "selected id_of (known_styled_items st4) (by_type m ''IfcStyledItem'') c5
         (known_styled_items st4 \<union> id_of ` set c5)"
    using pass_styled_items_shape by blast
  define st5 where "st5 = pass_styled_items lib p m st4"
  obtain c6 where c6: "copy_all lib p (by_type m ''IfcRelAssociatesMaterial'') (merged_model st5) =
        merged_model st5 @ map (Pair p) c6"
     and s6: "subseq c6 (by_type m ''IfcRelAssociatesMaterial'')"
       "(\<forall>mm e. add_ok lib mm (p, e)) \<longrightarrow> c6 = by_type m ''IfcRelAssociatesMaterial''"
    using copy_all_subseq by blast
  define st6 where "st6 = pass_material_relations lib p m st5"
  obtain c7 where c7: "copy_all lib p (by_type m ''IfcPresentationLayerAssignment'') (merged_model st6) =
        merged_model st6 @ map (Pair p) c7"
     and s7: "subseq c7 (by_type m ''IfcPresentationLayerAssignment'')"
       "(\<forall>mm e. add_ok lib mm (p, e)) \<longrightarrow> c7 = by_type m ''IfcPresentationLayerAssignment''"
    using copy_all_subseq by blast
  define st7 where "st7 = pass_layers lib p m st6"
  obtain c8 where c8: "merged_model (sweep lib p m st7) = merged_model st7 @ map (Pair p) c8"
     and s8: "subseq c8 (filter (\<lambda>e. is_a e \<notin> set handled_types) m)"
    using sweep_subseq by blast
  have pm: "process_model lib p m st = sweep lib p m st7"
    by (simp add: process_model_def st7_def st6_def st5_def st4_def st3_def st2_def st1_def st0_def)
  have e1: "st1 = st0\<lparr>merged_model := merged_model st0 @ map (Pair p) c1,
            known_colours := known_colours st0 \<union> id_of ` set c1\<rparr>"
    using c1 by (simp add: st1_def)
  have e2: "st2 = st1\<lparr>merged_model := merged_model st1 @ map (Pair p) c2,
            known_presentation_styles := known_presentation_styles st1 \<union> id_of ` set c2\<rparr>"
    using c2 by (simp add: st2_def)
  have e3: "st3 = st2\<lparr>merged_model := merged_model st2 @ map (Pair p) c3,
            known_surface_styles := known_surface_styles st2 \<union> name_key ` set c3\<rparr>"
    using c3 by (simp add: st3_def)
  have e4: "st4 = st3\<lparr>merged_model := merged_model st3 @ map (Pair p) c4,
            known_materials := known_materials st3 \<union> name_key ` set c4\<rparr>"
    using c4 by (simp add: st4_def)
  have e5: "st5 = st4\<lparr>merged_model := merged_model st4 @ map (Pair p) c5,
            known_styled_items := known_styled_items st4 \<union> id_of ` set c5\<rparr>"
    using c5 by (simp add: st5_def)
  have e6: "st6 = st5\<lparr>merged_model := merged_model st5 @ map (Pair p) c6\<rparr>"
    using c6 by (simp add: st6_def pass_material_relations_def)
  have e7: "st7 = st6\<lparr>merged_model := merged_model st6 @ map (Pair p) c7\<rparr>"
    using c7 by (simp add: st7_def pass_layers_def)
  have k0: "known_colours st0 = known_colours st" "known_presentation_styles st0 = known_presentation_styles st"
    "known_surface_styles st0 = known_surface_styles st" "known_materials st0 = known_materials st"
    "known_styled_items st0 = known_styled_items st" "merged_model st0 = merged_model st"
    by (simp_all add: st0_def)
  have mm: "merged_model (process_model lib p m st) =
       merged_model st @ map (Pair p) (c1 @ c2 @ c3 @ c4 @ c5 @ c6 @ c7 @ c8)"
  proof -
    have "merged_model st7 = merged_model st @ map (Pair p) (c1 @ c2 @ c3 @ c4 @ c5 @ c6 @ c7)"
      by (simp add: e7 e6 e5 e4 e3 e2 e1 k0)
    then show ?thesis by (simp add: pm c8)
  qed
  have t1: "selected id_of (known_colours st) (by_type m ''IfcColourRgb'') c1
       (known_colours (process_model lib p m st))"
    using s1 by (simp add: pm e7 e6 e5 e4 e3 e2 e1 k0)
  have t2: "selected id_of (known_presentation_styles st) (by_type m ''IfcPresentationStyleAssignment'') c2
       (known_presentation_styles (process_model lib p m st))"
    using s2 by (simp add: pm e7 e6 e5 e4 e3 e2 e1 k0)
  have t3: "selected name_key (known_surface_styles st) (by_type m ''IfcSurfaceStyle'') c3
       (known_surface_styles (process_model lib p m st))"
    using s3 by (simp add: pm e7 e6 e5 e4 e3 e2 e1 k0)
  have t4: "selected name_key (known_materials st) (by_type m ''IfcMaterial'') c4
       (known_materials (process_model lib p m st))"
    using s4 by (simp add: pm e7 e6 e5 e4 e3 e2 e1 k0)
  have t5: "selected id_of (known_styled_items st) (by_type m ''IfcStyledItem'') c5
       (known_styled_items (process_model lib p m st))"
    using s5 by (simp add: pm e7 e6 e5 e4 e3 e2 e1 k0)
  from mm t1 t2 t3 t4 t5 s6 s7 s8 show ?thesis by blast
qed

lemma selected_by_typeD:
  assumes "selected key K (by_type m T) c K'" and "e \<in> set c"
  shows "is_a e = T" and "key e \<notin> K"
proof -
  from assms(1) have "set c \<subseteq> set (by_type m T)" and d: "key ` set c \<inter> K = {}"
    by (auto simp: selected_def dest: subseq_subset)
  with assms(2) show "is_a e = T" by (auto simp: by_type_def)
  from d assms(2) show "key e \<notin> K" by auto
qed



lemma subseq_othersD:
  "subseq c (filter (\<lambda>e. is_a e \<notin> set handled_types) m) \<Longrightarrow> e \<in> set c \<Longrightarrow>
     is_a e \<notin> set handled_types"
  using subseq_subset[of c "filter (\<lambda>e. is_a e \<notin> set handled_types) m"] by auto

section \<open>An invariant of the loop over the secondary files\<close>










subsection \<open>The base file\<close>



lemma import_base_schema [simp]: "merged_schema (import_base lib p es st) = merged_schema st"
  by (induction es arbitrary: st) (auto split: option.splits)




subsection \<open>A file whose keys are all known\<close>





subsection \<open>Counting the copies of an entity\<close>

lemma count_list_filter:
  "count_list (filter P xs) x = (if P x then count_list xs x else 0)"
  by (induction xs) auto

lemma count_list_map_Pair: "count_list (map (Pair p) xs) (p, e) = count_list xs e"
  by (induction xs) auto

lemma count_list_notin: "x \<notin> set xs \<Longrightarrow> count_list xs x = 0"
  by (induction xs) auto

lemma unconditional_count:
  assumes ok: "\<forall>mm e. add_ok lib mm (p, e)"
    and ty: "is_a e = ''IfcRelAssociatesMaterial'' \<or> is_a e = ''IfcPresentationLayerAssignment''"
  shows "count_list (merged_model (process_model lib p m st)) (p, e) =
         count_list (merged_model st) (p, e) + count_list m e"
proof -
  let ?st' = "process_model lib p m st"
  from process_model_shape[of lib p m st] ok obtain c1 c2 c3 c4 c5 c8 where
    mm: "merged_model ?st' = merged_model st @ map (Pair p)
          (c1 @ c2 @ c3 @ c4 @ c5 @ by_type m ''IfcRelAssociatesMaterial'' @
           by_type m ''IfcPresentationLayerAssignment'' @ c8)"
    and s1: "selected id_of (known_colours st) (by_type m ''IfcColourRgb'') c1 (known_colours ?st')"
    and s2: "selected id_of (known_presentation_styles st)
               (by_type m ''IfcPresentationStyleAssignment'') c2 (known_presentation_styles ?st')"
    and s3: "selected name_key (known_surface_styles st) (by_type m ''IfcSurfaceStyle'') c3
               (known_surface_styles ?st')"
    and s4: "selected name_key (known_materials st) (by_type m ''IfcMaterial'') c4
               (known_materials ?st')"
    and s5: "selected id_of (known_styled_items st) (by_type m ''IfcStyledItem'') c5
               (known_styled_items ?st')"
    and s8: "subseq c8 (filter (\<lambda>e. is_a e \<notin> set handled_types) m)"
    by blast
  have n1: "count_list c1 e = 0"
    using selected_by_typeD(1)[OF s1, of e] ty by (intro count_list_notin) auto
  have n2: "count_list c2 e = 0"
    using selected_by_typeD(1)[OF s2, of e] ty by (intro count_list_notin) auto
  have n3: "count_list c3 e = 0"
    using selected_by_typeD(1)[OF s3, of e] ty by (intro count_list_notin) auto
  have n4: "count_list c4 e = 0"
    using selected_by_typeD(1)[OF s4, of e] ty by (intro count_list_notin) auto
  have n5: "count_list c5 e = 0"
    using selected_by_typeD(1)[OF s5, of e] ty by (intro count_list_notin) auto
  have n8: "count_list c8 e = 0"
    using subseq_othersD[OF s8, of e] ty by (intro count_list_notin) (auto simp: handled_types_def)
  have n67: "count_list (by_type m ''IfcRelAssociatesMaterial'') e +
             count_list (by_type m ''IfcPresentationLayerAssignment'') e = count_list m e"
    using ty by (auto simp: by_type_def count_list_filter)
  have "count_list (merged_model ?st') (p, e) =
        count_list (merged_model st) (p, e) +
        count_list (c1 @ c2 @ c3 @ c4 @ c5 @ by_type m ''IfcRelAssociatesMaterial'' @
           by_type m ''IfcPresentationLayerAssignment'' @ c8) e"
    unfolding mm by (simp only: count_list_append count_list_map_Pair)
  also have "\<dots> = count_list (merged_model st) (p, e) + count_list m e"
    using n1 n2 n3 n4 n5 n8 n67 by simp
  finally show ?thesis .
qed

subsection \<open>What is printed does not matter\<close>

lemma same_core_refl: "same_core st st"
  by (simp add: same_core_def)

lemma same_core_printed: "same_core (st\<lparr>printed := out\<rparr>) st"
  by (simp add: same_core_def known_sets_def)

lemma same_core_trans: "same_core a b \<Longrightarrow> same_core b c \<Longrightarrow> same_core a c"
  by (simp add: same_core_def)

lemma sweep_same_core:
  "same_core st st' \<Longrightarrow> same_core (sweep lib p es st) (sweep lib p es st')"
proof (induction es arbitrary: st st')
  case Nil
  then show ?case by simp
next
  case (Cons e es)
  show ?case
    unfolding sweep.simps
    using Cons.prems
    by (intro Cons.IH) (auto simp: same_core_def known_sets_def split: option.splits)
qed

lemma passes_same_core:
  assumes "same_core st st'"
  shows "same_core (pass_colours lib p m st) (pass_colours lib p m st')"
    and "same_core (pass_presentation_styles lib p m st) (pass_presentation_styles lib p m st')"
    and "same_core (pass_surface_styles lib p m st) (pass_surface_styles lib p m st')"
    and "same_core (pass_materials lib p m st) (pass_materials lib p m st')"
    and "same_core (pass_styled_items lib p m st) (pass_styled_items lib p m st')"
    and "same_core (pass_material_relations lib p m st) (pass_material_relations lib p m st')"
    and "same_core (pass_layers lib p m st) (pass_layers lib p m st')"
  using assms
  by (simp_all add: same_core_def known_sets_def pass_colours_def pass_presentation_styles_def
      pass_surface_styles_def pass_materials_def pass_styled_items_def
      pass_material_relations_def pass_layers_def split_beta)

lemma process_model_same_core:
  assumes "same_core st st'"
  shows "same_core (process_model lib p m st) (process_model lib p m st')"
proof -
  have "same_core (st\<lparr>printed := a\<rparr>) (st'\<lparr>printed := b\<rparr>)" for a b
    using assms by (simp add: same_core_def known_sets_def)
  then show ?thesis
    unfolding process_model_def
    by (intro sweep_same_core passes_same_core)
qed

lemma process_file_same_core:
  assumes "same_core st st'"
  shows "same_core (process_file lib fs p st) (process_file lib fs p st')"
proof (cases "fs p")
  case None
  with assms show ?thesis by (simp add: process_file_def same_core_def known_sets_def)
next
  case (Some f)
  with assms show ?thesis
    by (cases f) (simp_all add: process_file_def process_model_same_core,
        simp add: same_core_def known_sets_def)
qed

lemma process_file_skip:
  assumes "\<not> openable fs p"
  shows "same_core (process_file lib fs p st) st"
  using assms
  by (auto simp: openable_def process_file_def same_core_printed split: option.splits ifc_file.splits)

lemma merge_loop_skips:
  assumes "same_core st st'"
  shows "same_core (merge_loop lib fs ps st) (merge_loop lib fs (filter (openable fs) ps) st')"
  using assms
proof (induction ps arbitrary: st st')
  case Nil
  then show ?case by simp
next
  case (Cons p ps)
  show ?case
  proof (cases "openable fs p")
    case True
    with Cons.IH[OF process_file_same_core[OF Cons.prems]] show ?thesis by simp
  next
    case False
    have "same_core (process_file lib fs p st) st'"
      using same_core_trans[OF process_file_skip[OF False] Cons.prems] .
    with Cons.IH False show ?thesis by simp
  qed
qed

lemma import_base_same_core:
  "same_core st st' \<Longrightarrow> same_core (import_base lib p es st) (import_base lib p es st')"
proof (induction es arbitrary: st st')
  case Nil
  then show ?case by simp
next
  case (Cons e es)
  show ?case
    unfolding import_base.simps
    using Cons.prems
    by (intro Cons.IH) (auto simp: same_core_def known_sets_def split: option.splits)
qed

lemma load_base_same_core:
  "same_core (load_base lib p schema m out) (load_base lib p schema m out')"
proof -
  let ?init = "\<lambda>out. \<lparr>merged_schema = schema, merged_model = [], known_materials = {},
         known_surface_styles = {}, known_styled_items = {}, known_colours = {},
         known_presentation_styles = {},
         printed = out @ [InfoSchema schema p, InfoBaseFile p (length (by_type m ''IfcProduct''))]\<rparr>"
  have "same_core (?init out) (?init out')"
    by (simp add: same_core_def known_sets_def)
  from import_base_same_core[OF this, of lib p m] show ?thesis
    by (simp add: load_base_def same_core_def known_sets_def)
qed

lemma write_output_files:
  assumes "same_core st st'"
  shows "files (write_output lib out st w) = files (write_output lib out st' w)"
  using assms by (simp add: write_output_def same_core_def Let_def)

lemma process_model_schema [simp]: "merged_schema (process_model lib p m st) = merged_schema st"
  by (simp add: process_model_def pass_colours_def pass_presentation_styles_def
      pass_surface_styles_def pass_materials_def pass_styled_items_def
      pass_material_relations_def pass_layers_def split_beta)

lemma process_file_schema [simp]: "merged_schema (process_file lib fs p st) = merged_schema st"
  by (simp add: process_file_def split: option.splits ifc_file.splits)

lemma merge_loop_schema [simp]: "merged_schema (merge_loop lib fs ps st) = merged_schema st"
  by (induction ps arbitrary: st) simp_all

lemma load_base_schema [simp]: "merged_schema (load_base lib p schema m out) = schema"
  by (simp add: load_base_def)

section \<open>The analyzer and the command line\<close>



lemma validate_files [simp]: "files (validate_ifc_colors p w) = files w"
  by (simp add: validate_ifc_colors_def Let_def split: option.splits ifc_file.splits)

lemma drop2_argv:
  assumes "3 \<le> length argv"
  shows "drop 2 argv = argv ! 2 # drop 3 argv"
  using assms Cons_nth_drop_Suc[of 2 argv] by (simp add: numeral_3_eq_3 numeral_2_eq_2)

lemma main_merge_run:
  assumes "files w base = Some (Ifc schema base_model)" and "output \<noteq> ''--analyze''"
  shows "fst (main lib (prog # output # base # others) w) = 0"
    and "\<exists>out. files (snd (main lib (prog # output # base # others) w)) =
          files (write_output lib output
                  (merge_loop lib (files w) others (load_base lib base schema base_model out)) w)"
  using assms
  by (auto simp: main_def merge_ifc_files_with_color_priority_def Let_def write_output_def)


section \<open>The concrete inputs, evaluated\<close>

lemma example_files_simps:
  "example_files ''a.ifc'' = Some (Ifc ''IFC4'' model_a)"
  "example_files ''b.ifc'' = Some (Ifc ''IFC4'' model_b)"
  "example_files ''c.ifc'' = Some (Ifc ''IFC4'' model_c)"
  "example_files ''d.ifc'' = Some (Ifc ''IFC4'' model_d)"
  "example_files ''bad.ifc'' = Some Unparsable"
  "example_files ''missing.ifc'' = None"
  "example_files ''out.ifc'' = None"
  by (simp_all add: example_files_def)

lemma lib_ok_add [simp]: "add_ok lib_ok mm x"
  by (simp add: lib_ok_def)

lemma state_a_merged:
  "merged_model state_a =
     [(''a.ifc'', mk_entity ''IfcMaterial'' 1 (Some ''Concrete'')),
      (''a.ifc'', mk_entity ''IfcColourRgb'' 2 None),
      (''a.ifc'', mk_entity ''IfcWall'' 3 (Some ''wall A''))]"
  by code_simp




lemma key_of_unnamed: "name_key (mk_entity ''IfcMaterial'' 5 None) = ''unnamed_5''"
  by code_simp



lemma loop_bc_eval:
  "merged_model (merge_loop lib_ok example_files [''b.ifc'', ''c.ifc''] state_a) =
   merged_model state_a @
     [(''b.ifc'', mk_entity ''IfcColourRgb'' 9 None),
      (''b.ifc'', mk_entity ''IfcMaterial'' 5 None),
      (''b.ifc'', mk_entity ''IfcRelAssociatesMaterial'' 6 None),
      (''b.ifc'', mk_entity ''IfcWall'' 7 (Some ''wall B'')),
      (''c.ifc'', mk_entity ''IfcStyledItem'' 8 (Some ''item C''))]"
  by code_simp


lemma relation_counts:
  "count_list (merged_model state_a) (''b.ifc'', mk_entity ''IfcRelAssociatesMaterial'' 6 None) = 0"
  "count_list model_b (mk_entity ''IfcRelAssociatesMaterial'' 6 None) = 1"
  by code_simp+

lemma openable_examples:
  "filter (openable (files example_world)) [''missing.ifc'', ''c.ifc''] = [''c.ifc'']"
  "filter (openable (files example_world)) [''bad.ifc'', ''c.ifc''] = [''c.ifc'']"
  by (simp_all add: openable_def example_world_def example_files_simps)

lemma run_a_c_output:
  "files (snd (main lib_ok [''mergeifc.py'', ''out.ifc'', ''a.ifc'', ''c.ifc''] example_world)) ''out.ifc'' =
     Some (Ifc ''IFC4''
       [mk_entity ''IfcMaterial'' 1 (Some ''Concrete''),
        mk_entity ''IfcColourRgb'' 2 None,
        mk_entity ''IfcWall'' 3 (Some ''wall A''),
        mk_entity ''IfcMaterial'' 5 None,
        mk_entity ''IfcStyledItem'' 8 (Some ''item C'')])"
  by code_simp

section \<open>The claims\<close>

subsection \<open>C1: the seven passes of a secondary file\<close>



subsection \<open>C2: a known key blocks every later copy\<close>



subsection \<open>C3: the material of the base file wins\<close>



subsection \<open>C4: unnamed materials of two secondary files\<close>

text \<open>
  Claim C4 says that unnamed materials of different files never deduplicate against
  each other. The placeholder key is \<^verbatim>\<open>unnamed_\<close> followed by the identifier, and
  identifiers are unique within one file only: \<^verbatim>\<open>b.ifc\<close> and \<^verbatim>\<open>c.ifc\<close> both hold an
  unnamed material with identifier 5, both get the key \<^verbatim>\<open>unnamed_5\<close>, and after
  \<^verbatim>\<open>b.ifc\<close> the material of \<^verbatim>\<open>c.ifc\<close> is skipped.
\<close>

theorem unnamed_materials_collide:
  "name_key (mk_entity ''IfcMaterial'' 5 None) = ''unnamed_5'' \<and>
   mk_entity ''IfcMaterial'' 5 None \<in> set model_b \<and>
   mk_entity ''IfcMaterial'' 5 None \<in> set model_c \<and>
   (''b.ifc'', mk_entity ''IfcMaterial'' 5 None) \<in>
      set (merged_model (merge_loop lib_ok example_files [''b.ifc'', ''c.ifc''] state_a)) \<and>
   (''c.ifc'', mk_entity ''IfcMaterial'' 5 None) \<notin>
      set (merged_model (merge_loop lib_ok example_files [''b.ifc'', ''c.ifc''] state_a))"
  unfolding loop_bc_eval state_a_merged key_of_unnamed
  by (simp add: model_b_def model_c_def mk_entity_def)

subsection \<open>C5: a secondary file merged twice\<close>



subsection \<open>C6: relations and layers are copied every time\<close>

text \<open>
  Claim C6. When no add of an entity of the file \<open>p\<close> raises, every processing of
  \<open>p\<close> appends each of its material-association relations and presentation-layer
  assignments once more, whatever the known sets hold: one processing raises the number
  of copies of such an entity by the number of its occurrences in the file, and the
  file listed twice raises it by twice that number.
\<close>

theorem relations_and_layers_duplicated:
  assumes ok: "\<forall>mm e. add_ok lib mm (p, e)"
    and opened: "fs p = Some (Ifc schema m)"
    and ty: "is_a e = ''IfcRelAssociatesMaterial'' \<or> is_a e = ''IfcPresentationLayerAssignment''"
  shows "count_list (merged_model (process_file lib fs p st)) (p, e) =
           count_list (merged_model st) (p, e) + count_list m e \<and>
         count_list (merged_model (merge_loop lib fs [p, p] st)) (p, e) =
           count_list (merged_model st) (p, e) + 2 * count_list m e"
  using opened unconditional_count[OF ok ty, of m st]
    unconditional_count[OF ok ty, of m "process_model lib p m st"]
  by (simp add: process_file_def)

text \<open>
  The relation of \<^verbatim>\<open>b.ifc\<close>: one copy after one processing, two after two.
\<close>

theorem relations_and_layers_duplicated_witness:
  "(\<forall>mm e. add_ok lib_ok mm (''b.ifc'', e)) \<and>
   example_files ''b.ifc'' = Some (Ifc ''IFC4'' model_b) \<and>
   is_a (mk_entity ''IfcRelAssociatesMaterial'' 6 None) = ''IfcRelAssociatesMaterial'' \<and>
   count_list (merged_model (process_file lib_ok example_files ''b.ifc'' state_a))
     (''b.ifc'', mk_entity ''IfcRelAssociatesMaterial'' 6 None) = 1 \<and>
   count_list (merged_model (merge_loop lib_ok example_files [''b.ifc'', ''b.ifc''] state_a))
     (''b.ifc'', mk_entity ''IfcRelAssociatesMaterial'' 6 None) = 2"
proof -
  have ok: "\<forall>mm e. add_ok lib_ok mm (''b.ifc'', e)" by simp
  have ty: "is_a (mk_entity ''IfcRelAssociatesMaterial'' 6 None) = ''IfcRelAssociatesMaterial''"
    by (simp add: mk_entity_def)
  then have ty': "is_a (mk_entity ''IfcRelAssociatesMaterial'' 6 None) = ''IfcRelAssociatesMaterial'' \<or>
      is_a (mk_entity ''IfcRelAssociatesMaterial'' 6 None) = ''IfcPresentationLayerAssignment''"
    by (rule disjI1)
  from relations_and_layers_duplicated[where lib = lib_ok and p = "''b.ifc''" and fs = example_files
      and schema = "''IFC4''" and m = model_b and st = state_a
      and e = "mk_entity ''IfcRelAssociatesMaterial'' 6 None", OF ok example_files_simps(2) ty']
  show ?thesis
    using ok ty example_files_simps(2) by (simp add: relation_counts)
qed

subsection \<open>C7: a base file that is missing or does not open\<close>

text \<open>
  Claim C7. A merge invocation (at least two arguments, the first of them not
  \<^verbatim>\<open>--analyze\<close>) whose base path does not exist or does not open ends with exit
  status 1 and leaves the file system as it was: no output file is written.
\<close>

theorem missing_base_aborts:
  assumes "3 \<le> length argv"
    and "argv ! 1 \<noteq> ''--analyze''"
    and "files w (argv ! 2) = None \<or> files w (argv ! 2) = Some Unparsable"
  shows "fst (main lib argv w) = 1 \<and> files (snd (main lib argv w)) = files w"
proof -
  let ?w2 = "validate_ifc_colors (argv ! 2) (w\<lparr>stdout := stdout w @ [Banner, SourceAnalysisTitle]\<rparr>)"
  have f2: "files ?w2 = files w" by simp
  have m: "fst (merge_ifc_files_with_color_priority lib (argv ! 2 # drop 3 argv) (argv ! 1) ?w2) =
             Exited 1 \<and>
           files (snd (merge_ifc_files_with_color_priority lib (argv ! 2 # drop 3 argv) (argv ! 1) ?w2)) =
             files w"
    using assms(3) unfolding merge_ifc_files_with_color_priority_def f2 by auto
  have "main lib argv w =
     (case merge_ifc_files_with_color_priority lib (argv ! 2 # drop 3 argv) (argv ! 1) ?w2 of
        (Exited n, w3) \<Rightarrow> (n, w3)
      | (Returned, w3) \<Rightarrow>
          (0, validate_ifc_colors (argv ! 1) (w3\<lparr>stdout := stdout w3 @ [ResultAnalysisTitle]\<rparr>)))"
    using assms(1,2) by (simp add: main_def drop2_argv Let_def del: One_nat_def)
  with m show ?thesis by (auto split: prod.splits status.splits)
qed

theorem missing_base_aborts_witness:
  "3 \<le> length [''mergeifc.py'', ''out.ifc'', ''missing.ifc'', ''b.ifc''] \<and>
   [''mergeifc.py'', ''out.ifc'', ''missing.ifc'', ''b.ifc''] ! 1 \<noteq> ''--analyze'' \<and>
   files example_world ([''mergeifc.py'', ''out.ifc'', ''missing.ifc'', ''b.ifc''] ! 2) = None \<and>
   fst (main lib_ok [''mergeifc.py'', ''out.ifc'', ''missing.ifc'', ''b.ifc''] example_world) = 1 \<and>
   files (snd (main lib_ok [''mergeifc.py'', ''out.ifc'', ''missing.ifc'', ''b.ifc''] example_world)) =
     files example_world"
proof -
  let ?argv = "[''mergeifc.py'', ''out.ifc'', ''missing.ifc'', ''b.ifc'']"
  have a: "3 \<le> length ?argv" by simp
  have b: "?argv ! 1 \<noteq> ''--analyze''" by simp
  have c: "files example_world (?argv ! 2) = None"
    by (simp add: example_world_def example_files_simps)
  then have c': "files example_world (?argv ! 2) = None \<or> files example_world (?argv ! 2) = Some Unparsable"
    by (rule disjI1)
  from missing_base_aborts[OF a b c', of lib_ok] a b c show ?thesis by blast
qed

subsection \<open>C8: a secondary file that is missing or does not open\<close>

text \<open>
  Claim C8. In a merge invocation whose base file opens, the process ends with exit
  status 0, and the secondary files that are missing or do not open have no effect but
  on what is printed: the file system after the run is the one after the run without
  them, and so are the merged model and the known sets after the loop, from any state.
\<close>

theorem unopenable_secondary_files_skipped:
  assumes "files w base = Some (Ifc schema base_model)" and "output \<noteq> ''--analyze''"
  shows "fst (main lib (prog # output # base # others) w) = 0 \<and>
         files (snd (main lib (prog # output # base # others) w)) =
         files (snd (main lib (prog # output # base # filter (openable (files w)) others) w)) \<and>
         same_core (merge_loop lib (files w) others st)
           (merge_loop lib (files w) (filter (openable (files w)) others) st)"
proof -
  let ?ok = "filter (openable (files w)) others"
  from main_merge_run(2)[OF assms, of lib prog others] obtain out where
    a: "files (snd (main lib (prog # output # base # others) w)) =
          files (write_output lib output
                  (merge_loop lib (files w) others (load_base lib base schema base_model out)) w)"
    by blast
  from main_merge_run(2)[OF assms, of lib prog ?ok] obtain out' where
    b: "files (snd (main lib (prog # output # base # ?ok) w)) =
          files (write_output lib output
                  (merge_loop lib (files w) ?ok (load_base lib base schema base_model out')) w)"
    by blast
  have "same_core (merge_loop lib (files w) others (load_base lib base schema base_model out))
          (merge_loop lib (files w) ?ok (load_base lib base schema base_model out'))"
    by (rule merge_loop_skips[OF load_base_same_core])
  from write_output_files[OF this] a b
  have "files (snd (main lib (prog # output # base # others) w)) =
         files (snd (main lib (prog # output # base # ?ok) w))"
    by simp
  with main_merge_run(1)[OF assms, of lib prog others] merge_loop_skips[OF same_core_refl, of lib "files w" others st]
  show ?thesis by blast
qed

text \<open>
  Three input files of which the second does not exist: the output file holds the
  entities of the first and the third.
\<close>

theorem unopenable_secondary_files_skipped_witness:
  "files example_world ''a.ifc'' = Some (Ifc ''IFC4'' model_a) \<and>
   files example_world ''missing.ifc'' = None \<and>
   fst (main lib_ok [''mergeifc.py'', ''out.ifc'', ''a.ifc'', ''missing.ifc'', ''c.ifc''] example_world) = 0 \<and>
   files (snd (main lib_ok [''mergeifc.py'', ''out.ifc'', ''a.ifc'', ''missing.ifc'', ''c.ifc'']
                 example_world)) ''out.ifc'' =
     Some (Ifc ''IFC4''
       [mk_entity ''IfcMaterial'' 1 (Some ''Concrete''),
        mk_entity ''IfcColourRgb'' 2 None,
        mk_entity ''IfcWall'' 3 (Some ''wall A''),
        mk_entity ''IfcMaterial'' 5 None,
        mk_entity ''IfcStyledItem'' 8 (Some ''item C'')])"
proof -
  have f: "files example_world ''a.ifc'' = Some (Ifc ''IFC4'' model_a)"
    and g: "files example_world ''missing.ifc'' = None"
    by (simp_all add: example_world_def example_files_simps)
  have n: "''out.ifc'' \<noteq> ''--analyze''" by simp
  from unopenable_secondary_files_skipped[OF f n, of lib_ok "''mergeifc.py''"
      "[''missing.ifc'', ''c.ifc'']" state_a]
  have "fst (main lib_ok [''mergeifc.py'', ''out.ifc'', ''a.ifc'', ''missing.ifc'', ''c.ifc'']
          example_world) = 0"
    and "files (snd (main lib_ok [''mergeifc.py'', ''out.ifc'', ''a.ifc'', ''missing.ifc'', ''c.ifc'']
                 example_world)) =
         files (snd (main lib_ok [''mergeifc.py'', ''out.ifc'', ''a.ifc'', ''c.ifc''] example_world))"
    unfolding openable_examples by blast+
  with f g run_a_c_output show ?thesis by simp
qed

subsection \<open>C9: the report of the analyzer\<close>



subsection \<open>C10: no input file\<close>

text \<open>
  Claim C10. Called with an empty list of input files, the merge function prints one
  error message and returns: the process goes on, no file is read or written, no merged
  model is made.
\<close>

theorem no_input_files_returns:
  "merge_ifc_files_with_color_priority lib [] output_file w =
     (Returned, w\<lparr>stdout := stdout w @ [ErrNoInputFiles]\<rparr>)"
  by (simp add: merge_ifc_files_with_color_priority_def)

end
